theory Spec2Isabelle
  imports Complex_Main
begin

section \<open>Quantum natural gradient optimizer (pennylane/optimize/qng.py)\<close>

subsection \<open>Values\<close>

text \<open>
  NumPy arrays of floats are read over the real numbers: a one-dimensional array is a
  list, a two-dimensional array is the list of its rows. The empty list of rows is the
  array of shape \<open>(0, 0)\<close>.
\<close>

type_synonym vec = "real list"
type_synonym matrix = "real list list"

text \<open>
  The parameters \<open>x\<close> of an optimization step and the gradient are nested iterables
  of numbers.
\<close>

datatype params = Num real | Seq "params list"

datatype error =
    ValueError string
  | AttributeError string
  | TypeError string

text \<open>What reading an attribute of the optimizer can give.\<close>

datatype pyval = PyNone | PyBool bool | PyFloat real | PyMatrix matrix

text \<open>
  The objective passed to \<open>step\<close>. \<open>hasattr(qnode, "metric_tensor")\<close> is whether the
  field \<open>metric_tensor\<close> is present; \<open>grad_fn\<close> is what
  \<open>self.compute_grad(qnode, x)\<close> of the base class evaluates, the gradient of the
  objective at \<open>x\<close>, in the nested shape of \<open>x\<close>.
\<close>

record QNode =
  metric_tensor :: "(params \<Rightarrow> bool \<Rightarrow> matrix) option"
  grad_fn :: "params \<Rightarrow> params"

text \<open>
  The instance attributes of a \<open>QNGOptimizer\<close>: \<open>_stepsize\<close>, set by the base class
  from the argument of \<open>__init__\<close> and read by \<open>apply_grad\<close>, then \<open>diag_approx\<close>
  and \<open>metric_tensor_inv\<close>, which starts as \<open>None\<close>.
\<close>

record QNGOptimizer =
  stepsize :: real
  diag_approx :: bool
  metric_tensor_inv :: "matrix option"

text \<open>The queries a step makes to the objective, in the order it makes them.\<close>

datatype call = MetricTensorCall params bool | GradCall params

subsection \<open>Flattening\<close>

text \<open>
  Modelled from the spec: \<open>_flatten\<close> and \<open>unflatten\<close> of \<open>pennylane.utils\<close> are
  imported by the optimizer and defined elsewhere. The spec has a parameter tree with a canonical
  flatten-to-vector and restore-from-vector pair: \<open>flatten\<close> lists the numbers of a
  structure from left to right, \<open>unflatten flat model\<close> rebuilds the nested shape of
  \<open>model\<close> from the numbers of \<open>flat\<close>, and fails when \<open>flat\<close> has too few or too
  many of them.
\<close>

fun flatten :: "params \<Rightarrow> vec" where
  "flatten (Num r) = [r]"
| "flatten (Seq ps) = concat (map flatten ps)"

fun unflatten_aux :: "vec \<Rightarrow> params \<Rightarrow> (params \<times> vec) option"
  and unflatten_seq :: "vec \<Rightarrow> params list \<Rightarrow> (params list \<times> vec) option" where
  "unflatten_aux flat (Num r) =
     (case flat of [] \<Rightarrow> None | v # rest \<Rightarrow> Some (Num v, rest))"
| "unflatten_aux flat (Seq ps) =
     (case unflatten_seq flat ps of
        None \<Rightarrow> None
      | Some (vs, rest) \<Rightarrow> Some (Seq vs, rest))"
| "unflatten_seq flat [] = Some ([], flat)"
| "unflatten_seq flat (p # ps) =
     (case unflatten_aux flat p of
        None \<Rightarrow> None
      | Some (v, rest) \<Rightarrow>
          (case unflatten_seq rest ps of
             None \<Rightarrow> None
           | Some (vs, rest') \<Rightarrow> Some (v # vs, rest')))"

definition unflatten :: "vec \<Rightarrow> params \<Rightarrow> error + params" where
  "unflatten flat model =
     (case unflatten_aux flat model of
        None \<Rightarrow> Inl (ValueError ''Flattened iterable has fewer elements than the model.'')
      | Some (res, tail) \<Rightarrow>
          if tail = [] then Inr res
          else Inl (ValueError ''Flattened iterable has more elements than the model.''))"

text \<open>The nested shape of a structure: the structure with every number forgotten.\<close>

fun shape :: "params \<Rightarrow> params" where
  "shape (Num r) = Num 0"
| "shape (Seq ps) = Seq (map shape ps)"

subsection \<open>Array arithmetic\<close>

text \<open>\<open>c * M\<close> for a float \<open>c\<close> and a two-dimensional array \<open>M\<close>.\<close>

definition scale :: "real \<Rightarrow> matrix \<Rightarrow> matrix" where
  "scale c M = map (map ((*) c)) M"

definition dot :: "vec \<Rightarrow> vec \<Rightarrow> real" where
  "dot u v = sum_list (map2 (*) u v)"

text \<open>
  \<open>M @ v\<close> for a two-dimensional \<open>M\<close> and a one-dimensional \<open>v\<close>: the number of
  columns of \<open>M\<close> must be the length of \<open>v\<close>.
\<close>

definition matvec :: "matrix \<Rightarrow> vec \<Rightarrow> error + vec" where
  "matvec M v =
     (if M = [] then
        (if v = [] then Inr []
         else Inl (ValueError ''matmul: mismatch in core dimension''))
      else if list_all (\<lambda>row. length row = length v) M then
        Inr (map (\<lambda>row. dot row v) M)
      else Inl (ValueError ''matmul: mismatch in core dimension''))"

text \<open>
  \<open>a - b\<close> for one-dimensional arrays, with NumPy's broadcasting: equal lengths, or one
  of the two of length one.
\<close>

definition vsub :: "vec \<Rightarrow> vec \<Rightarrow> error + vec" where
  "vsub a b =
     (if length a = length b then Inr (map2 (-) a b)
      else if length b = 1 then Inr (map (\<lambda>u. u - hd b) a)
      else if length a = 1 then Inr (map (\<lambda>u. hd a - u) b)
      else Inl (ValueError ''operands could not be broadcast together''))"

subsection \<open>The optimizer\<close>

definition QNGOptimizer_init :: "real \<Rightarrow> bool \<Rightarrow> QNGOptimizer" where
  "QNGOptimizer_init eta diag =
     \<lparr>stepsize = eta, diag_approx = diag, metric_tensor_inv = None\<rparr>"

text \<open>
  Reading an attribute of the optimizer by name. The instance has the three attributes
  above, and nothing in the module assigns another. The classes add methods:
  \<open>__init__\<close>, \<open>step\<close> and \<open>apply_grad\<close> here, and those of the base class
  \<open>GradientDescentOptimizer\<close>, which is defined in another module and is taken to
  have no attribute named \<open>metric_tensor\<close>.
\<close>

definition getattr :: "QNGOptimizer \<Rightarrow> string \<Rightarrow> error + pyval" where
  "getattr self name =
     (if name = ''_stepsize'' then Inr (PyFloat (stepsize self))
      else if name = ''diag_approx'' then Inr (PyBool (diag_approx self))
      else if name = ''metric_tensor_inv'' then
        Inr (case metric_tensor_inv self of None \<Rightarrow> PyNone | Some m \<Rightarrow> PyMatrix m)
      else Inl (AttributeError name))"

text \<open>
  \<open>apply_grad\<close>: \<open>x_flat - self._stepsize * self.metric_tensor_inv @ grad_flat\<close>
  parses as \<open>x_flat - ((self._stepsize * self.metric_tensor_inv) @ grad_flat)\<close>.
  With \<open>metric_tensor_inv\<close> still \<open>None\<close> the product of a float and \<open>None\<close>
  raises.
\<close>

definition apply_grad :: "QNGOptimizer \<Rightarrow> params \<Rightarrow> params \<Rightarrow> error + params" where
  "apply_grad self grad x =
     (let grad_flat = flatten grad;
          x_flat = flatten x
      in case metric_tensor_inv self of
           None \<Rightarrow> Inl (TypeError ''unsupported operand type(s) for *'')
         | Some minv \<Rightarrow>
             (case matvec (scale (stepsize self) minv) grad_flat of
                Inl e \<Rightarrow> Inl e
              | Inr upd \<Rightarrow>
                  (case vsub x_flat upd of
                     Inl e \<Rightarrow> Inl e
                   | Inr x_new_flat \<Rightarrow> unflatten x_new_flat x)))"

text \<open>
  \<open>step\<close> returns the new values or the exception raised, the optimizer after the
  call, and the queries made to the objective. \<open>pinv\<close> is \<open>scipy.linalg.pinv\<close>.
  The condition \<open>recompute_tensor or self.metric_tensor is None\<close> reads the attribute
  \<open>metric_tensor\<close> of the optimizer only when \<open>recompute_tensor\<close> is false.
\<close>

definition step ::
  "(matrix \<Rightarrow> matrix) \<Rightarrow> QNGOptimizer \<Rightarrow> QNode \<Rightarrow> params \<Rightarrow> bool
     \<Rightarrow> (error + params) \<times> QNGOptimizer \<times> call list" where
  "step pinv self qnode x recompute_tensor =
     (case metric_tensor qnode of
        None \<Rightarrow>
          (Inl (ValueError ''Objective function must be encoded as a single QNode''),
           self, [])
      | Some mt \<Rightarrow>
          (case (if recompute_tensor then Inr True
                 else (case getattr self ''metric_tensor'' of
                         Inl e \<Rightarrow> Inl e
                       | Inr v \<Rightarrow> Inr (v = PyNone))) of
             Inl e \<Rightarrow> (Inl e, self, [])
           | Inr recompute \<Rightarrow>
               (let self1 =
                      (if recompute then
                         self\<lparr>metric_tensor_inv := Some (pinv (mt x (diag_approx self)))\<rparr>
                       else self);
                    calls1 =
                      (if recompute then [MetricTensorCall x (diag_approx self)] else []);
                    g = grad_fn qnode x
                in (apply_grad self1 g x, self1, calls1 @ [GradCall x]))))"


subsection \<open>The update rule as the documentation writes it\<close>

text \<open>
  \<open>x - eta * (Ginv g)\<close> on flat vectors: the matrix-vector product first, then the
  step size, then the subtraction from \<open>x\<close>.
\<close>

definition natural_gradient_update :: "real \<Rightarrow> matrix \<Rightarrow> vec \<Rightarrow> vec \<Rightarrow> vec" where
  "natural_gradient_update eta Ginv g xs =
     map2 (-) xs (map ((*) eta) (map (\<lambda>row. dot row g) Ginv))"

text \<open>A matrix of shape \<open>(n, n)\<close>.\<close>

definition square :: "nat \<Rightarrow> matrix \<Rightarrow> bool" where
  "square n M = (length M = n \<and> list_all (\<lambda>row. length row = n) M)"

subsection \<open>Example objects\<close>

text \<open>
  The pseudo-inverse of a diagonal matrix inverts its non-zero entries; on diagonal
  matrices this is what \<open>scipy.linalg.pinv\<close> computes.
\<close>

definition pinv_diagonal :: "matrix \<Rightarrow> matrix" where
  "pinv_diagonal M = map (map (\<lambda>a. if a = 0 then 0 else 1 / a)) M"

text \<open>An objective of two parameters with metric tensor \<open>diag(2, 4)\<close>.\<close>

definition example_qnode :: QNode where
  "example_qnode =
     \<lparr>metric_tensor = Some (\<lambda>x diag. [[2, 0], [0, 4]]),
      grad_fn = (\<lambda>x. Seq [Num 2, Seq [Num 4]])\<rparr>"

text \<open>An objective that is a plain function: it has no \<open>metric_tensor\<close>.\<close>

definition example_function :: QNode where
  "example_function = \<lparr>metric_tensor = None, grad_fn = (\<lambda>x. x)\<rparr>"

definition example_x :: params where
  "example_x = Seq [Num 1, Seq [Num 3]]"


section \<open>Single-qubit unitary decomposer\<close>

subsection \<open>Data\<close>

text \<open>
  Modelled from the spec: \<open>_zyz_decomposition\<close> of
  \<open>pennylane.transforms.decompositions\<close> is exercised by the tests only, so the
  decomposer below follows sections 3 and 4.1 of the spec. A \<open>Unitary2x2\<close> is a complex
  matrix in the row-major convention \<open>[[m00, m01], [m10, m11]]\<close>, over the exact
  complex numbers; a gate descriptor is one of the two variants of the spec, with an
  opaque wire label.
\<close>

record mat2 =
  m00 :: complex
  m01 :: complex
  m10 :: complex
  m11 :: complex

datatype 'w GateDescriptor = RZGate real 'w | RotGate real real real 'w

datatype decomposition_error = InvalidOperatorError string

definition dagger :: "mat2 \<Rightarrow> mat2" where
  "dagger U = \<lparr>m00 = cnj (m00 U), m01 = cnj (m10 U), m10 = cnj (m01 U), m11 = cnj (m11 U)\<rparr>"

definition matmul :: "mat2 \<Rightarrow> mat2 \<Rightarrow> mat2" where
  "matmul A B =
     \<lparr>m00 = m00 A * m00 B + m01 A * m10 B,
      m01 = m00 A * m01 B + m01 A * m11 B,
      m10 = m10 A * m00 B + m11 A * m10 B,
      m11 = m10 A * m01 B + m11 A * m11 B\<rparr>"

definition madd :: "mat2 \<Rightarrow> mat2 \<Rightarrow> mat2" where
  "madd A B =
     \<lparr>m00 = m00 A + m00 B, m01 = m01 A + m01 B,
      m10 = m10 A + m10 B, m11 = m11 A + m11 B\<rparr>"

definition smult :: "complex \<Rightarrow> mat2 \<Rightarrow> mat2" where
  "smult c U = \<lparr>m00 = c * m00 U, m01 = c * m01 U, m10 = c * m10 U, m11 = c * m11 U\<rparr>"

definition det :: "mat2 \<Rightarrow> complex" where
  "det U = m00 U * m11 U - m01 U * m10 U"

subsection \<open>The decomposition\<close>

text \<open>
  Modelled from the spec: the tolerance is one fixed constant, here the parameter
  \<open>tol\<close>; a number is zero within tolerance when its modulus is below \<open>tol\<close>, and
  \<open>U\<close> is unitary within tolerance when every entry of \<open>U\<^sup>\<dagger>U - I\<close> is.
\<close>

definition zero_within :: "real \<Rightarrow> complex \<Rightarrow> bool" where
  "zero_within tol z = (cmod z < tol)"

definition is_unitary :: "real \<Rightarrow> mat2 \<Rightarrow> bool" where
  "is_unitary tol U =
     (let P = matmul (dagger U) U
      in zero_within tol (m00 P - 1) \<and> zero_within tol (m01 P)
         \<and> zero_within tol (m10 P) \<and> zero_within tol (m11 P - 1))"

text \<open>
  Modelled from the spec: step 1, \<open>\<alpha> = arg(det U) / 2\<close> and \<open>U' = e\<^sup>-\<^sup>i\<^sup>\<alpha> U\<close>, with
  \<open>arg\<close> the principal argument in \<open>(-\<pi>, \<pi>]\<close>; \<open>atan2 y x\<close> is the argument of
  \<open>x + iy\<close>.
\<close>

definition remove_global_phase :: "mat2 \<Rightarrow> mat2" where
  "remove_global_phase U = (let alpha = Arg (det U) / 2 in smult (cis (- alpha)) U)"

definition atan2 :: "real \<Rightarrow> real \<Rightarrow> real" where
  "atan2 y x = Arg (Complex x y)"

text \<open>
  Modelled from the spec: in the general case \<open>phi\<close> and \<open>omega\<close> are two linear
  combinations of the arguments of the four entries of \<open>U'\<close>, which the spec leaves to
  be derived. Their weights are a parameter of the decomposer.
\<close>

record arg_weights =
  w00 :: real
  w01 :: real
  w10 :: real
  w11 :: real

definition arg_combination :: "arg_weights \<Rightarrow> mat2 \<Rightarrow> real" where
  "arg_combination c U =
     w00 c * Arg (m00 U) + w01 c * Arg (m01 U) + w10 c * Arg (m10 U) + w11 c * Arg (m11 U)"

text \<open>
  Modelled from the spec: the unitarity check first, then the removal of the global
  phase, the diagonal fast path with \<open>angle = 2 arg(U'[1,1])\<close>, and the general case
  with \<open>theta = 2 atan2(|U'[1,0]|, |U'[0,0]|)\<close>.
\<close>

definition zyz_decomposition ::
  "real \<Rightarrow> arg_weights \<times> arg_weights \<Rightarrow> mat2 \<Rightarrow> 'w
     \<Rightarrow> decomposition_error + 'w GateDescriptor list" where
  "zyz_decomposition tol phi_omega U wire =
     (if is_unitary tol U then
        (let U' = remove_global_phase U in
         if zero_within tol (m10 U') \<and> zero_within tol (m01 U') then
           Inr [RZGate (2 * Arg (m11 U')) wire]
         else
           (let theta = 2 * atan2 (cmod (m10 U')) (cmod (m00 U'));
                phi = arg_combination (fst phi_omega) U';
                omega = arg_combination (snd phi_omega) U'
            in Inr [RotGate phi theta omega wire]))
      else Inl (InvalidOperatorError ''operator must be unitary''))"

subsection \<open>Gate matrices\<close>

text \<open>
  Modelled from the spec: the matrices \<open>I\<close>, \<open>Z\<close>, \<open>S\<close>, \<open>T\<close>, \<open>H\<close>, \<open>X\<close> of the
  tests' \<open>gate_data\<close> and the matrix of \<open>RZ(\<theta>)\<close> are named by the spec and the
  tests only; these are the usual matrices of those gates.
\<close>

definition I_matrix :: mat2 where
  "I_matrix = \<lparr>m00 = 1, m01 = 0, m10 = 0, m11 = 1\<rparr>"

definition Z_matrix :: mat2 where
  "Z_matrix = \<lparr>m00 = 1, m01 = 0, m10 = 0, m11 = - 1\<rparr>"

definition S_matrix :: mat2 where
  "S_matrix = \<lparr>m00 = 1, m01 = 0, m10 = 0, m11 = \<i>\<rparr>"

definition T_matrix :: mat2 where
  "T_matrix = \<lparr>m00 = 1, m01 = 0, m10 = 0, m11 = cis (pi / 4)\<rparr>"

definition RZ_matrix :: "real \<Rightarrow> mat2" where
  "RZ_matrix t = \<lparr>m00 = cis (- t / 2), m01 = 0, m10 = 0, m11 = cis (t / 2)\<rparr>"

definition H_matrix :: mat2 where
  "H_matrix =
     \<lparr>m00 = 1 / sqrt 2, m01 = 1 / sqrt 2, m10 = 1 / sqrt 2, m11 = - 1 / sqrt 2\<rparr>"

definition X_matrix :: mat2 where
  "X_matrix = \<lparr>m00 = 0, m01 = 1, m10 = 1, m11 = 0\<rparr>"

text \<open>Weights for the examples; the diagonal fast path never reads them.\<close>

definition zero_weights :: arg_weights where
  "zero_weights = \<lparr>w00 = 0, w01 = 0, w10 = 0, w11 = 0\<rparr>"


section \<open>Properties of the optimizer\<close>

subsection \<open>Flattening and restoring\<close>

lemma unflatten_aux_seq_flatten:
  "length (flatten m) \<le> length flat \<longrightarrow>
      (\<exists>p. unflatten_aux flat m = Some (p, drop (length (flatten m)) flat)
         \<and> shape p = shape m \<and> flatten p = take (length (flatten m)) flat)"
  "length (concat (map flatten ps)) \<le> length flat' \<longrightarrow>
      (\<exists>vs. unflatten_seq flat' ps = Some (vs, drop (length (concat (map flatten ps))) flat')
         \<and> map shape vs = map shape ps
         \<and> concat (map flatten vs) = take (length (concat (map flatten ps))) flat')"
proof (induction flat m and flat' ps rule: unflatten_aux_unflatten_seq.induct)
  case (1 flat r)
  then show ?case by (cases flat) auto
next
  case (2 flat ps)
  then show ?case by auto
next
  case (3 flat)
  then show ?case by simp
next
  case (4 flat p ps)
  show ?case
  proof
    assume len: "length (concat (map flatten (p # ps))) \<le> length flat"
    let ?n = "length (flatten p)"
    let ?k = "length (concat (map flatten ps))"
    from len have lp: "?n \<le> length flat" by simp
    with "4.IH"(1) obtain v where
      v: "unflatten_aux flat p = Some (v, drop ?n flat)" "shape v = shape p"
         "flatten v = take ?n flat"
      by blast
    from len have "?k \<le> length (drop ?n flat)" by simp
    with "4.IH"(2)[OF v(1) refl] obtain vs where
      vs: "unflatten_seq (drop ?n flat) ps = Some (vs, drop ?k (drop ?n flat))"
          "map shape vs = map shape ps"
          "concat (map flatten vs) = take ?k (drop ?n flat)"
      by blast
    have "take ?n flat @ take ?k (drop ?n flat) = take (?n + ?k) flat"
      by (simp add: take_add)
    with v vs show "\<exists>vs'. unflatten_seq flat (p # ps) =
        Some (vs', drop (length (concat (map flatten (p # ps)))) flat)
         \<and> map shape vs' = map shape (p # ps)
         \<and> concat (map flatten vs') = take (length (concat (map flatten (p # ps)))) flat"
      by (simp add: add.commute)
  qed
qed

lemma unflatten_flatten:
  assumes "length flat = length (flatten model)"
  shows "\<exists>p. unflatten flat model = Inr p \<and> shape p = shape model \<and> flatten p = flat"
  using unflatten_aux_seq_flatten(1)[of model flat] assms
  by (auto simp: unflatten_def)

subsection \<open>The product with the scaled matrix\<close>

lemma dot_scale: "dot (map ((*) c) row) v = c * dot row v"
proof (induction row arbitrary: v)
  case Nil
  then show ?case by (simp add: dot_def)
next
  case (Cons a row)
  then show ?case by (cases v) (simp_all add: dot_def algebra_simps)
qed

lemma matvec_scale:
  assumes "square (length v) M"
  shows "matvec (scale c M) v = Inr (map (\<lambda>row. c * dot row v) M)"
proof (cases "M = []")
  case True
  with assms show ?thesis by (simp add: matvec_def scale_def square_def)
next
  case False
  with assms show ?thesis
    by (simp add: matvec_def scale_def square_def list_all_iff dot_scale)
qed

lemma apply_grad_square:
  assumes dims: "square (length (flatten x)) Ginv"
    and g: "length (flatten grad) = length (flatten x)"
    and inv: "metric_tensor_inv self = Some Ginv"
  shows "\<exists>x'. apply_grad self grad x = Inr x' \<and> shape x' = shape x
           \<and> flatten x' = natural_gradient_update (stepsize self) Ginv (flatten grad) (flatten x)"
proof -
  let ?upd = "map (\<lambda>row. stepsize self * dot row (flatten grad)) Ginv"
  from dims g have mv: "matvec (scale (stepsize self) Ginv) (flatten grad) = Inr ?upd"
    by (simp add: matvec_scale)
  from dims have len: "length (flatten x) = length ?upd"
    by (simp add: square_def)
  then have sub: "vsub (flatten x) ?upd = Inr (map2 (-) (flatten x) ?upd)"
    by (simp add: vsub_def)
  have "length (map2 (-) (flatten x) ?upd) = length (flatten x)"
    using len by simp
  from unflatten_flatten[OF this] obtain x' where
    x': "unflatten (map2 (-) (flatten x) ?upd) x = Inr x'" "shape x' = shape x"
        "flatten x' = map2 (-) (flatten x) ?upd"
    by blast
  have "apply_grad self grad x = Inr x'"
    using mv sub x'(1) inv by (simp add: apply_grad_def)
  moreover have "flatten x' =
      natural_gradient_update (stepsize self) Ginv (flatten grad) (flatten x)"
    using x'(3) by (simp add: natural_gradient_update_def comp_def)
  ultimately show ?thesis using x'(2) by blast
qed

lemma step_reuse_attribute_error:
  "step pinv self \<lparr>metric_tensor = Some mt, grad_fn = gf\<rparr> x False
     = (Inl (AttributeError ''metric_tensor''), self, [])"
  by (simp add: step_def getattr_def)

lemma example_first_step:
  "step pinv_diagonal (QNGOptimizer_init (1 / 100) False) example_qnode example_x True
     = (Inr (Seq [Num (99 / 100), Seq [Num (299 / 100)]]),
        \<lparr>stepsize = 1 / 100, diag_approx = False,
         metric_tensor_inv = Some [[1 / 2, 0], [0, 1 / 4]]\<rparr>,
        [MetricTensorCall example_x False, GradCall example_x])"
  by (simp add: step_def QNGOptimizer_init_def example_qnode_def example_x_def
      pinv_diagonal_def apply_grad_def matvec_def scale_def dot_def vsub_def unflatten_def)

subsection \<open>Claims\<close>

text \<open>
  Claim C6. For an objective with a metric tensor and parameters \<open>x\<close> of any nested
  shape, \<open>step\<close> with \<open>recompute_tensor = True\<close> returns a structure of the shape of
  \<open>x\<close> whose flattening is \<open>x - eta * pinv(metric_tensor(x)) * gradient(x)\<close> on the
  flattened \<open>x\<close>, stores the pseudo-inverse, and queries the metric tensor and then the
  gradient. The metric tensor's pseudo-inverse is square of the size of the flattened
  \<open>x\<close>, and the gradient has as many numbers as \<open>x\<close>.
\<close>

theorem step_recompute_update:
  assumes mt: "metric_tensor qnode = Some mt"
    and dims: "square (length (flatten x)) (pinv (mt x (diag_approx self)))"
    and g: "length (flatten (grad_fn qnode x)) = length (flatten x)"
  shows "\<exists>x'. step pinv self qnode x True =
            (Inr x', self\<lparr>metric_tensor_inv := Some (pinv (mt x (diag_approx self)))\<rparr>,
             [MetricTensorCall x (diag_approx self), GradCall x])
          \<and> shape x' = shape x
          \<and> flatten x' =
              natural_gradient_update (stepsize self) (pinv (mt x (diag_approx self)))
                (flatten (grad_fn qnode x)) (flatten x)"
proof -
  let ?Ginv = "pinv (mt x (diag_approx self))"
  let ?self1 = "self\<lparr>metric_tensor_inv := Some ?Ginv\<rparr>"
  have "metric_tensor_inv ?self1 = Some ?Ginv" by simp
  from apply_grad_square[OF dims g this] obtain x' where
    x': "apply_grad ?self1 (grad_fn qnode x) x = Inr x'" "shape x' = shape x"
        "flatten x' = natural_gradient_update (stepsize ?self1) ?Ginv
           (flatten (grad_fn qnode x)) (flatten x)"
    by blast
  have "step pinv self qnode x True =
          (Inr x', ?self1, [MetricTensorCall x (diag_approx self), GradCall x])"
    using mt x'(1) by (simp add: step_def)
  with x'(2,3) show ?thesis by simp
qed

theorem step_recompute_update_witness:
  "metric_tensor example_qnode = Some (\<lambda>x diag. [[2, 0], [0, 4]])
   \<and> square (length (flatten example_x)) (pinv_diagonal [[2, 0], [0, 4]])
   \<and> length (flatten (grad_fn example_qnode example_x)) = length (flatten example_x)
   \<and> (\<exists>x'. step pinv_diagonal (QNGOptimizer_init (1 / 100) False) example_qnode example_x True
             = (Inr x',
                \<lparr>stepsize = 1 / 100, diag_approx = False,
                 metric_tensor_inv = Some [[1 / 2, 0], [0, 1 / 4]]\<rparr>,
                [MetricTensorCall example_x False, GradCall example_x])
           \<and> shape x' = Seq [Num 0, Seq [Num 0]]
           \<and> flatten x' = [99 / 100, 299 / 100])"
proof -
  have h1: "metric_tensor example_qnode = Some (\<lambda>x diag. [[2, 0], [0, 4]])"
    by (simp add: example_qnode_def)
  have h2: "square (length (flatten example_x))
      (pinv_diagonal ((\<lambda>x diag. [[2, 0], [0, 4]]) example_x
         (diag_approx (QNGOptimizer_init (1 / 100) False))))"
    by (simp add: square_def example_x_def pinv_diagonal_def)
  have h3: "length (flatten (grad_fn example_qnode example_x)) = length (flatten example_x)"
    by (simp add: example_qnode_def example_x_def)
  show ?thesis
    using h1 h2 h3
      step_recompute_update[where pinv = pinv_diagonal and qnode = example_qnode
        and mt = "\<lambda>x diag. [[2, 0], [0, 4]]" and x = example_x
        and self = "QNGOptimizer_init (1 / 100) False"]
    by (simp add: QNGOptimizer_init_def example_qnode_def example_x_def pinv_diagonal_def
        natural_gradient_update_def dot_def)
qed

text \<open>
  Claim C7. For an objective without a \<open>metric_tensor\<close> attribute, \<open>step\<close> raises the
  error "Objective function must be encoded as a single QNode" (the spec's
  \<open>ConfigurationError\<close>, a \<open>ValueError\<close> in the code) and has made no query to the
  objective: neither the metric tensor nor the gradient was computed.
\<close>

theorem step_without_metric_tensor_raises:
  assumes "metric_tensor qnode = None"
  shows "fst (step pinv self qnode x recompute_tensor) =
           Inl (ValueError ''Objective function must be encoded as a single QNode'')
         \<and> snd (snd (step pinv self qnode x recompute_tensor)) = []"
  using assms by (simp add: step_def)

theorem step_without_metric_tensor_raises_witness:
  "metric_tensor example_function = None
   \<and> fst (step pinv_diagonal (QNGOptimizer_init (1 / 100) False) example_function example_x True)
       = Inl (ValueError ''Objective function must be encoded as a single QNode'')
   \<and> snd (snd (step pinv_diagonal (QNGOptimizer_init (1 / 100) False) example_function
         example_x True)) = []"
proof -
  have h: "metric_tensor example_function = None"
    by (simp add: example_function_def)
  show ?thesis
    using h step_without_metric_tensor_raises[OF h] by simp
qed

text \<open>
  Claim C10. When the objective has no \<open>metric_tensor\<close> attribute the failing call to
  \<open>step\<close> leaves the optimizer as it was: \<open>metric_tensor_inv\<close>, \<open>diag_approx\<close> and
  the step size are those before the call.
\<close>

theorem step_without_metric_tensor_keeps_state:
  assumes "metric_tensor qnode = None"
  shows "(\<exists>e. fst (step pinv self qnode x recompute_tensor) = Inl e)
         \<and> fst (snd (step pinv self qnode x recompute_tensor)) = self
         \<and> metric_tensor_inv (fst (snd (step pinv self qnode x recompute_tensor)))
             = metric_tensor_inv self
         \<and> diag_approx (fst (snd (step pinv self qnode x recompute_tensor)))
             = diag_approx self
         \<and> stepsize (fst (snd (step pinv self qnode x recompute_tensor))) = stepsize self"
  using assms by (simp add: step_def)

theorem step_without_metric_tensor_keeps_state_witness:
  "metric_tensor example_function = None
   \<and> fst (snd (step pinv_diagonal
        \<lparr>stepsize = 1 / 100, diag_approx = True, metric_tensor_inv = Some [[1 / 2]]\<rparr>
        example_function example_x False))
       = \<lparr>stepsize = 1 / 100, diag_approx = True, metric_tensor_inv = Some [[1 / 2]]\<rparr>"
proof -
  have h: "metric_tensor example_function = None"
    by (simp add: example_function_def)
  show ?thesis
    using h step_without_metric_tensor_keeps_state[OF h] by simp
qed

text \<open>
  Claim C8. After a first step has stored the pseudo-inverse, a second step with
  \<open>recompute_tensor = False\<close> does not reuse it: the condition reads the attribute
  \<open>metric_tensor\<close>, which the optimizer does not have (it stores
  \<open>metric_tensor_inv\<close>), and the call raises \<open>AttributeError\<close> before the gradient is
  computed.
\<close>

theorem second_step_without_recompute_raises:
  "fst (snd (step pinv_diagonal (QNGOptimizer_init (1 / 100) False) example_qnode example_x
       True))
     = \<lparr>stepsize = 1 / 100, diag_approx = False,
        metric_tensor_inv = Some [[1 / 2, 0], [0, 1 / 4]]\<rparr>
   \<and> step pinv_diagonal
       \<lparr>stepsize = 1 / 100, diag_approx = False,
        metric_tensor_inv = Some [[1 / 2, 0], [0, 1 / 4]]\<rparr>
       example_qnode example_x False
     = (Inl (AttributeError ''metric_tensor''),
        \<lparr>stepsize = 1 / 100, diag_approx = False,
         metric_tensor_inv = Some [[1 / 2, 0], [0, 1 / 4]]\<rparr>, [])"
proof
  show "fst (snd (step pinv_diagonal (QNGOptimizer_init (1 / 100) False) example_qnode
          example_x True))
        = \<lparr>stepsize = 1 / 100, diag_approx = False,
           metric_tensor_inv = Some [[1 / 2, 0], [0, 1 / 4]]\<rparr>"
    by (simp add: example_first_step)
  show "step pinv_diagonal
          \<lparr>stepsize = 1 / 100, diag_approx = False,
           metric_tensor_inv = Some [[1 / 2, 0], [0, 1 / 4]]\<rparr>
          example_qnode example_x False
        = (Inl (AttributeError ''metric_tensor''),
           \<lparr>stepsize = 1 / 100, diag_approx = False,
            metric_tensor_inv = Some [[1 / 2, 0], [0, 1 / 4]]\<rparr>, [])"
    unfolding example_qnode_def by (rule step_reuse_attribute_error)
qed


section \<open>Properties of the decomposer\<close>

subsection \<open>Diagonal inputs\<close>

lemma Arg_cis: "- pi < a \<Longrightarrow> a \<le> pi \<Longrightarrow> Arg (cis a) = a"
  by (rule cis_Arg_unique) (simp_all add: sgn_eq)

lemma diag_unitary:
  "0 < tol \<Longrightarrow> is_unitary tol \<lparr>m00 = cis a, m01 = 0, m10 = 0, m11 = cis b\<rparr>"
  by (simp add: is_unitary_def matmul_def dagger_def zero_within_def cis_cnj cis_mult)

text \<open>
  A diagonal matrix \<open>diag(e\<^sup>i\<^sup>a, e\<^sup>i\<^sup>b)\<close> whose determinant has principal argument
  \<open>a + b\<close> takes the fast path, and the angle is \<open>b - a\<close> as long as half of it is a
  principal argument.
\<close>

lemma zyz_diag:
  assumes tol: "0 < tol"
    and d: "- pi < a + b" "a + b \<le> pi"
    and r: "- 2 * pi < b - a" "b - a \<le> 2 * pi"
  shows "zyz_decomposition tol po \<lparr>m00 = cis a, m01 = 0, m10 = 0, m11 = cis b\<rparr> w
           = Inr [RZGate (b - a) w]"
proof -
  let ?U = "\<lparr>m00 = cis a, m01 = 0, m10 = 0, m11 = cis b\<rparr>"
  have det: "det ?U = cis (a + b)" by (simp add: det_def cis_mult)
  have "Arg (det ?U) = a + b" unfolding det using d by (rule Arg_cis)
  then have U': "remove_global_phase ?U =
      \<lparr>m00 = cis ((a - b) / 2), m01 = 0, m10 = 0, m11 = cis ((b - a) / 2)\<rparr>"
    by (simp add: remove_global_phase_def smult_def cis_mult Let_def field_simps)
  have "Arg (cis ((b - a) / 2)) = (b - a) / 2"
    using r by (intro Arg_cis) auto
  then show ?thesis
    using tol diag_unitary[OF tol, of a b]
    by (simp add: zyz_decomposition_def U' zero_within_def)
qed

lemma zyz_I: "0 < tol \<Longrightarrow> zyz_decomposition tol po I_matrix w = Inr [RZGate 0 w]"
  using zyz_diag[of tol 0 0 po w] by (simp add: I_matrix_def)

lemma zyz_Z: "0 < tol \<Longrightarrow> zyz_decomposition tol po Z_matrix w = Inr [RZGate pi w]"
  using zyz_diag[of tol 0 pi po w] by (simp add: Z_matrix_def)

lemma zyz_S: "0 < tol \<Longrightarrow> zyz_decomposition tol po S_matrix w = Inr [RZGate (pi / 2) w]"
  using zyz_diag[of tol 0 "pi / 2" po w] by (simp add: S_matrix_def)

lemma zyz_T: "0 < tol \<Longrightarrow> zyz_decomposition tol po T_matrix w = Inr [RZGate (pi / 4) w]"
  using zyz_diag[of tol 0 "pi / 4" po w] by (simp add: T_matrix_def)

lemma zyz_RZ:
  "0 < tol \<Longrightarrow> - 2 * pi < t \<Longrightarrow> t \<le> 2 * pi
     \<Longrightarrow> zyz_decomposition tol po (RZ_matrix t) w = Inr [RZGate t w]"
  using zyz_diag[of tol "- t / 2" "t / 2" po w] by (simp add: RZ_matrix_def)

text \<open>The matrix of \<open>RZ\<close> has period \<open>4\<pi>\<close>: \<open>RZ(3\<pi>)\<close> and \<open>RZ(-\<pi>)\<close> are one matrix.\<close>

lemma RZ_3pi: "RZ_matrix (3 * pi) = RZ_matrix (- pi)"
proof -
  have "cis (3 * pi / 2) = cis (- pi / 2 + 2 * pi)" by (simp add: field_simps)
  also have "\<dots> = cis (- pi / 2)" by (simp only: cis_mult[symmetric] cis_2pi mult_1_right)
  finally have a: "cis (3 * pi / 2) = cis (- pi / 2)" .
  have "cis (- (3 * pi) / 2) = cis (pi / 2 + - (2 * pi))" by (simp add: field_simps)
  also have "\<dots> = cis (pi / 2)"
    by (simp only: cis_mult[symmetric] cis_inverse[symmetric] cis_2pi inverse_1 mult_1_right)
  finally have b: "cis (- (3 * pi) / 2) = cis (pi / 2)" .
  show ?thesis using a b by (simp add: RZ_matrix_def)
qed

lemma zyz_RZ_3pi:
  "zyz_decomposition (1 / 10 ^ 7) po (RZ_matrix (3 * pi)) w = Inr [RZGate (- pi) w]"
  unfolding RZ_3pi by (rule zyz_RZ) simp_all

subsection \<open>Unitarity of the test matrices\<close>

lemma I_plus_H_not_unitary: "tol \<le> 1 \<Longrightarrow> \<not> is_unitary tol (madd I_matrix H_matrix)"
proof -
  assume t: "tol \<le> 1"
  let ?P = "matmul (dagger (madd I_matrix H_matrix)) (madd I_matrix H_matrix)"
  have e: "m01 ?P = complex_of_real (2 / sqrt 2)"
    by (simp add: matmul_def dagger_def madd_def I_matrix_def H_matrix_def
        algebra_simps complex_eq_iff)
  have "cmod (m01 ?P) = sqrt 2"
    unfolding e norm_of_real by (simp add: real_div_sqrt)
  moreover have "1 < sqrt 2"
    by simp
  ultimately have "\<not> cmod (m01 ?P) < tol"
    using t by linarith
  then have "\<not> zero_within tol (m01 ?P)"
    by (simp add: zero_within_def)
  then show ?thesis
    by (simp add: is_unitary_def Let_def)
qed

lemma X_unitary: "0 < tol \<Longrightarrow> is_unitary tol X_matrix"
  by (simp add: is_unitary_def matmul_def dagger_def X_matrix_def zero_within_def)

text \<open>\<open>X\<close> takes the general case, with \<open>theta = \<pi>\<close>.\<close>

lemma zyz_X:
  assumes "0 < tol" "tol \<le> 1"
  shows "zyz_decomposition tol po X_matrix w =
           Inr [RotGate (arg_combination (fst po) \<lparr>m00 = 0, m01 = - \<i>, m10 = - \<i>, m11 = 0\<rparr>)
                  pi (arg_combination (snd po) \<lparr>m00 = 0, m01 = - \<i>, m10 = - \<i>, m11 = 0\<rparr>) w]"
proof -
  have det: "det X_matrix = - 1" by (simp add: det_def X_matrix_def)
  have "Arg (- 1) = pi" using Arg_cis[of pi] by simp
  then have a: "Arg (det X_matrix) / 2 = pi / 2" by (simp add: det)
  have U': "remove_global_phase X_matrix = \<lparr>m00 = 0, m01 = - \<i>, m10 = - \<i>, m11 = 0\<rparr>"
    unfolding remove_global_phase_def Let_def a
    by (simp add: smult_def X_matrix_def)
  have "Complex 0 1 = \<i>" by (simp add: complex_eq_iff)
  then have "atan2 1 0 = pi / 2" by (simp add: atan2_def)
  then show ?thesis using assms X_unitary[of tol]
    by (simp add: zyz_decomposition_def U' zero_within_def Let_def)
qed

subsection \<open>Claims\<close>

text \<open>
  Claim C2, as the decomposer has it. The diagonal inputs \<open>I\<close>, \<open>Z\<close>, \<open>S\<close>, \<open>T\<close>
  decompose to exactly one \<open>RZGate\<close> with the angles \<open>0\<close>, \<open>\<pi>\<close>, \<open>\<pi>/2\<close>,
  \<open>\<pi>/4\<close>, and the matrix of \<open>RZ(\<theta>)\<close> gives back \<open>RZ(\<theta>)\<close> for
  \<open>-2\<pi> < \<theta> \<le> 2\<pi>\<close>.
\<close>

theorem diagonal_inputs_give_RZ:
  assumes "0 < tol" and "- 2 * pi < t" and "t \<le> 2 * pi"
  shows "zyz_decomposition tol po I_matrix w = Inr [RZGate 0 w]
       \<and> zyz_decomposition tol po Z_matrix w = Inr [RZGate pi w]
       \<and> zyz_decomposition tol po S_matrix w = Inr [RZGate (pi / 2) w]
       \<and> zyz_decomposition tol po T_matrix w = Inr [RZGate (pi / 4) w]
       \<and> zyz_decomposition tol po (RZ_matrix t) w = Inr [RZGate t w]"
  using assms by (simp add: zyz_I zyz_Z zyz_S zyz_T zyz_RZ)

theorem diagonal_inputs_give_RZ_witness:
  "(0 :: real) < 1 / 10 ^ 7 \<and> - 2 * pi < 3 / 10 \<and> 3 / 10 \<le> 2 * pi
   \<and> zyz_decomposition (1 / 10 ^ 7) (zero_weights, zero_weights) Z_matrix ''a''
       = Inr [RZGate pi ''a'']
   \<and> zyz_decomposition (1 / 10 ^ 7) (zero_weights, zero_weights) (RZ_matrix (3 / 10)) ''a''
       = Inr [RZGate (3 / 10) ''a'']"
proof -
  have h1: "(0 :: real) < 1 / 10 ^ 7" by simp
  have h2: "- 2 * pi < 3 / 10" using pi_gt_zero by linarith
  have h3: "3 / 10 \<le> 2 * pi" using pi_ge_two by linarith
  show ?thesis
    using h1 h2 h3
      diagonal_inputs_give_RZ[OF h1 h2 h3, of "(zero_weights, zero_weights)" "''a''"]
    by simp
qed

text \<open>
  The claim as written, for every real \<open>\<theta>\<close>, fails at \<open>\<theta> = 3\<pi>\<close>: the matrix of
  \<open>RZ(3\<pi>)\<close> decomposes to \<open>RZ(-\<pi>)\<close>.
\<close>

theorem RZ_3pi_counterexample:
  "zyz_decomposition (1 / 10 ^ 7) (zero_weights, zero_weights) (RZ_matrix (3 * pi)) ''a''
     = Inr [RZGate (- pi) ''a'']
   \<and> zyz_decomposition (1 / 10 ^ 7) (zero_weights, zero_weights) (RZ_matrix (3 * pi)) ''a''
     \<noteq> Inr [RZGate (3 * pi) ''a'']"
proof -
  have e: "zyz_decomposition (1 / 10 ^ 7) (zero_weights, zero_weights) (RZ_matrix (3 * pi))
             ''a'' = Inr [RZGate (- pi) ''a'']"
    by (rule zyz_RZ_3pi)
  have "- pi \<noteq> 3 * pi" using pi_gt_zero by linarith
  then show ?thesis unfolding e by simp
qed

text \<open>
  Claim C4. A matrix that is not unitary within tolerance, such as \<open>I + H\<close>, makes the
  decomposer raise \<open>InvalidOperatorError\<close> ("operator must be unitary"): the result is
  the error and no gate.
\<close>

theorem nonunitary_raises:
  "\<not> is_unitary tol U \<Longrightarrow>
     zyz_decomposition tol po U w = Inl (InvalidOperatorError ''operator must be unitary'')"
  by (simp add: zyz_decomposition_def)

theorem nonunitary_raises_witness:
  "\<not> is_unitary (1 / 10 ^ 7) (madd I_matrix H_matrix)
   \<and> zyz_decomposition (1 / 10 ^ 7) (zero_weights, zero_weights) (madd I_matrix H_matrix) ''a''
       = Inl (InvalidOperatorError ''operator must be unitary'')"
proof -
  have h: "\<not> is_unitary (1 / 10 ^ 7) (madd I_matrix H_matrix)"
    by (rule I_plus_H_not_unitary) simp
  show ?thesis using h nonunitary_raises[OF h] by simp
qed

text \<open>
  Claim C5. For a matrix that is unitary within tolerance the decomposer returns a
  sequence of exactly one gate on the given wire, an \<open>RZGate\<close> or a \<open>RotGate\<close>.
\<close>

theorem unitary_gives_one_gate:
  "is_unitary tol U \<Longrightarrow>
     \<exists>gs. zyz_decomposition tol po U w = Inr gs \<and> length gs = 1
       \<and> ((\<exists>a. gs = [RZGate a w]) \<or> (\<exists>p t om. gs = [RotGate p t om w]))"
  by (simp add: zyz_decomposition_def Let_def)

theorem unitary_gives_one_gate_witness:
  "is_unitary (1 / 10 ^ 7) X_matrix
   \<and> (\<exists>gs. zyz_decomposition (1 / 10 ^ 7) (zero_weights, zero_weights) X_matrix ''a'' = Inr gs
         \<and> length gs = 1
         \<and> ((\<exists>a. gs = [RZGate a ''a'']) \<or> (\<exists>p t om. gs = [RotGate p t om ''a''])))"
proof -
  have h: "is_unitary (1 / 10 ^ 7) X_matrix"
    by (rule X_unitary) simp
  show ?thesis using h unitary_gives_one_gate[OF h] by simp
qed

end
